theory Spec2Isabelle
  imports
    Complex_Main
    "HOL-Library.Multiset"
    "HOL-Library.Char_ord"
    "HOL-Library.List_Lexorder"
begin

section \<open>Numeric cells\<close>

text \<open>
  The scripts compute on pandas columns. A numeric cell of a float column is a finite
  number, one of the two infinities, or not-a-number. Finite values are kept as exact
  rationals: the rounding error of a double, its overflow and the sign of zero are not
  part of the model. What the model keeps is the case analysis of the division: pandas
  divides element by element without raising, and a zero divisor gives an infinity or
  not-a-number.
\<close>

datatype fval = Fin rat | PInf | NInf | NaN

fun fadd :: "fval \<Rightarrow> fval \<Rightarrow> fval" where
  "fadd NaN y = NaN"
| "fadd x NaN = NaN"
| "fadd (Fin a) (Fin b) = Fin (a + b)"
| "fadd (Fin a) y = y"
| "fadd x (Fin b) = x"
| "fadd PInf PInf = PInf"
| "fadd NInf NInf = NInf"
| "fadd PInf NInf = NaN"
| "fadd NInf PInf = NaN"

fun fmul :: "fval \<Rightarrow> fval \<Rightarrow> fval" where
  "fmul NaN y = NaN"
| "fmul x NaN = NaN"
| "fmul (Fin a) (Fin b) = Fin (a * b)"
| "fmul (Fin a) PInf = (if a = 0 then NaN else if 0 < a then PInf else NInf)"
| "fmul (Fin a) NInf = (if a = 0 then NaN else if 0 < a then NInf else PInf)"
| "fmul PInf (Fin b) = (if b = 0 then NaN else if 0 < b then PInf else NInf)"
| "fmul NInf (Fin b) = (if b = 0 then NaN else if 0 < b then NInf else PInf)"
| "fmul PInf PInf = PInf"
| "fmul NInf NInf = PInf"
| "fmul PInf NInf = NInf"
| "fmul NInf PInf = NInf"

fun fdiv :: "fval \<Rightarrow> fval \<Rightarrow> fval" where
  "fdiv NaN y = NaN"
| "fdiv x NaN = NaN"
| "fdiv (Fin a) (Fin b) =
     (if b \<noteq> 0 then Fin (a / b)
      else if a = 0 then NaN
      else if 0 < a then PInf else NInf)"
| "fdiv (Fin a) y = Fin 0"
| "fdiv PInf (Fin b) = (if 0 \<le> b then PInf else NInf)"
| "fdiv NInf (Fin b) = (if 0 \<le> b then NInf else PInf)"
| "fdiv x y = NaN"

text \<open>
  \<^verbatim>\<open>Series.round(2)\<close> is numpy's rounding to two decimals: scale by 100, round to the
  nearest integer with ties to the even one, scale back. The model rounds the exact
  value; the script rounds the double next to it, which can land on the other side of a
  tie (23 / 160 * 100 is 14.375 exactly). No statement below depends on the digit a tie
  is rounded to.
\<close>

definition rint :: "rat \<Rightarrow> int" where
  "rint x =
     (let f = \<lfloor>x\<rfloor>; d = x - of_int f
      in if d < 1 / 2 then f
         else if 1 / 2 < d then f + 1
         else if even f then f else f + 1)"

fun round2 :: "fval \<Rightarrow> fval" where
  "round2 (Fin a) = Fin (of_int (rint (a * 100)) / 100)"
| "round2 x = x"

section \<open>LEHD origin-destination flows\<close>

text \<open>
  A row of the LODES origin-destination file, with the columns the script reads.
  \<^verbatim>\<open>w_geocode\<close> and \<open>h_geocode\<close> are read with \<^verbatim>\<open>dtype=str\<close>; \<open>S000\<close> is the job count.
  The columns the script adds by assignment (\<open>w_tract\<close>, \<open>h_tract\<close>, \<open>h_county\<close>) are
  optional fields: \<open>None\<close> as long as the frame does not have the column. An assignment
  sets the column in every row of the frame. The other columns of the file travel in
  the extension part of the record.

  Every row has both geocodes (the file has no empty field there). \<open>S000\<close> is a column
  of 64-bit integers: a cell is an integer from \<open>- 2 ^ 63\<close> up to \<open>2 ^ 63 - 1\<close>.
\<close>

record lodes_row =
  w_geocode :: string
  h_geocode :: string
  S000 :: int
  w_tract :: "string option"
  h_tract :: "string option"
  h_county :: "string option"

definition berkeley_tracts :: "string list" where
  "berkeley_tracts =
     [''06001400500'', ''06001400700'', ''06001421800'', ''06001421900'', ''06001422200'',
      ''06001422300'', ''06001422400'', ''06001422500'', ''06001422800'', ''06001422901'',
      ''06001423000'', ''06001423100'', ''06001423400'', ''06001423500'', ''06001423601'',
      ''06001423602'', ''06001423901'', ''06001423902'', ''06001424001'']"

text \<open>
  \<^verbatim>\<open>Series.isin(values)\<close> on a column of strings: exact equality with one of the values.
  The script applies it to columns it has assigned before, so the case \<open>None\<close> is
  never reached by it.
\<close>

definition isin :: "string option \<Rightarrow> string list \<Rightarrow> bool" where
  "isin c vs = (case c of None \<Rightarrow> False | Some s \<Rightarrow> s \<in> set vs)"

text \<open>
  The body of the loop of \<^verbatim>\<open>fetch_lodes\<close> on one chunk: the first 11 characters of the
  workplace geocode become the column \<open>w_tract\<close>, and the rows whose \<open>w_tract\<close> is in
  the list of tracts are kept. The list is the module constant \<open>berkeley_tracts\<close>; it is
  a parameter here so that statements can range over it.
\<close>

definition set_w_tract :: "'a lodes_row_scheme \<Rightarrow> 'a lodes_row_scheme" where
  "set_w_tract r = r\<lparr>w_tract := Some (take 11 (w_geocode r))\<rparr>"

definition berkeley_chunk ::
    "string list \<Rightarrow> 'a lodes_row_scheme list \<Rightarrow> 'a lodes_row_scheme list" where
  "berkeley_chunk tracts chunk =
     (let chunk' = map set_w_tract chunk
      in filter (\<lambda>r. isin (w_tract r) tracts) chunk')"

text \<open>
  \<^verbatim>\<open>pd.read_csv(url, chunksize=...)\<close> is an iterator over chunks of the remote file. Each
  step of the iteration yields a chunk or raises. The remote file is a parameter of the
  model: for each URL, the list of what the steps of the iteration give.
\<close>

datatype exn = Exn string

type_synonym 'a reader = "(exn + 'a list) list"

definition STATE :: string where "STATE = ''ca''"
definition YEAR_PRE :: string where "YEAR_PRE = ''2019''"
definition YEAR_POST :: string where "YEAR_POST = ''2021''"
definition SEGMENT :: string where "SEGMENT = ''main''"
definition JOBTYPE :: string where "JOBTYPE = ''JT00''"

definition lodes_url :: "string \<Rightarrow> string" where
  "lodes_url yr =
     ''https://lehd.ces.census.gov/data/lodes/LODES8/'' @ STATE @ ''/od/'' @ STATE
       @ ''_od_'' @ SEGMENT @ ''_'' @ JOBTYPE @ ''_'' @ yr @ ''.csv.gz''"

text \<open>
  The loop of \<^verbatim>\<open>fetch_lodes\<close>: \<open>chunks\<close> is the list the loop appends to. An exception
  leaves the loop for the handler, whatever has been collected.
\<close>

fun read_loop ::
    "string list \<Rightarrow> 'a lodes_row_scheme reader \<Rightarrow> 'a lodes_row_scheme list list
       \<Rightarrow> exn + 'a lodes_row_scheme list list" where
  "read_loop tracts [] chunks = Inr chunks"
| "read_loop tracts (Inl e # rest) chunks = Inl e"
| "read_loop tracts (Inr chunk # rest) chunks =
     (let bc = berkeley_chunk tracts chunk
      in read_loop tracts rest (if length bc > 0 then chunks @ [bc] else chunks))"

text \<open>
  \<^verbatim>\<open>fetch_lodes(year)\<close>: the concatenation of the kept chunks, or \<open>None\<close> when nothing was
  kept or an exception was caught.
\<close>

definition fetch_lodes ::
    "string list \<Rightarrow> (string \<Rightarrow> 'a lodes_row_scheme reader) \<Rightarrow> string
       \<Rightarrow> 'a lodes_row_scheme list option" where
  "fetch_lodes tracts remote yr =
     (case read_loop tracts (remote (lodes_url yr)) [] of
        Inl e \<Rightarrow> None
      | Inr chunks \<Rightarrow> if chunks \<noteq> [] then Some (concat chunks) else None)"

definition set_h_tract :: "'a lodes_row_scheme \<Rightarrow> 'a lodes_row_scheme" where
  "set_h_tract r = r\<lparr>h_tract := Some (take 11 (h_geocode r))\<rparr>"

subsection \<open>Commute analysis\<close>

datatype py_error = KeyError string

record commute_stats =
  year :: string
  total_jobs :: int
  same_tract :: int
  live_work_berkeley :: int
  commute_in :: int
  pct_commute_in :: fval

text \<open>
  \<^verbatim>\<open>Series.sum()\<close> of a column of 64-bit integers is a 64-bit integer: the sum wraps
  around in two's complement, without an error. Wrapping after every addition gives the
  same as wrapping the sum once.
\<close>

definition int64 :: "int \<Rightarrow> int" where
  "int64 x = (x + 2 ^ 63) mod 2 ^ 64 - 2 ^ 63"

definition sum_int64 :: "int list \<Rightarrow> int" where
  "sum_int64 xs = int64 (sum_list xs)"

text \<open>
  \<^verbatim>\<open>analyze_commutes(df, year)\<close>. Reading a column the frame does not have raises
  \<^verbatim>\<open>KeyError\<close>; the empty list stands for an empty frame that has the columns
  (\<^verbatim>\<open>fetch_lodes\<close> returns no empty frame). The sums of \<open>S000\<close> are 64-bit sums; the
  division of two such sums is a float division, guarded by \<^verbatim>\<open>total > 0\<close>.
\<close>

definition analyze_commutes ::
    "string list \<Rightarrow> 'a lodes_row_scheme list \<Rightarrow> string \<Rightarrow> py_error + commute_stats" where
  "analyze_commutes tracts df yr =
     (if \<exists>r \<in> set df. h_tract r = None then Inl (KeyError ''h_tract'')
      else if \<exists>r \<in> set df. w_tract r = None then Inl (KeyError ''w_tract'')
      else
        let same = sum_int64 (map S000 (filter (\<lambda>r. h_tract r = w_tract r) df));
            lwb = sum_int64 (map S000 (filter (\<lambda>r. isin (h_tract r) tracts) df));
            ci = sum_int64 (map S000 (filter (\<lambda>r. \<not> isin (h_tract r) tracts) df));
            total = sum_int64 (map S000 df)
        in Inr \<lparr>year = yr, total_jobs = total, same_tract = same,
                 live_work_berkeley = lwb, commute_in = ci,
                 pct_commute_in =
                   (if total > 0
                    then fmul (fdiv (Fin (of_int ci)) (Fin (of_int total))) (Fin 100)
                    else Fin 0)\<rparr>)"

subsection \<open>Origin counties\<close>

definition set_h_county :: "'a lodes_row_scheme \<Rightarrow> 'a lodes_row_scheme" where
  "set_h_county r = r\<lparr>h_county := Some (take 5 (h_geocode r))\<rparr>"

text \<open>
  \<^verbatim>\<open>df.groupby(key)[val].sum()\<close>: one entry per value of the key, in the order of the
  keys, holding the sum of the rows with that key. Rows without a key are left out. The
  sums of the groups, and the total \<^verbatim>\<open>top_origins\<close> divides by, are taken in the integers
  without the 64-bit wrap-around.
\<close>

definition groupby_sum ::
    "('r \<Rightarrow> 'k::linorder option) \<Rightarrow> ('r \<Rightarrow> int) \<Rightarrow> 'r list \<Rightarrow> ('k \<times> int) list" where
  "groupby_sum key val df =
     map (\<lambda>k. (k, sum_list (map val (filter (\<lambda>r. key r = Some k) df))))
         (sort (remdups (List.map_filter key df)))"

text \<open>
  \<^verbatim>\<open>sort_values(ascending=False)\<close>: by decreasing total. Among equal totals the order is
  that of the library's sorting routine; the model keeps the order of the keys there.
\<close>

definition sort_values_desc :: "('k \<times> int) list \<Rightarrow> ('k \<times> int) list" where
  "sort_values_desc kvs = sort_key (\<lambda>kv. - snd kv) kvs"

definition county_names :: "(string \<times> string) list" where
  "county_names =
     [(''06001'', ''Alameda County (includes Berkeley)''),
      (''06013'', ''Contra Costa County''),
      (''06075'', ''San Francisco County''),
      (''06081'', ''San Mateo County''),
      (''06085'', ''Santa Clara County''),
      (''06097'', ''Sonoma County''),
      (''06095'', ''Solano County'')]"

definition county_totals :: "'a lodes_row_scheme list \<Rightarrow> (string \<times> int) list" where
  "county_totals df = sort_values_desc (groupby_sum h_county S000 df)"

text \<open>
  \<^verbatim>\<open>top_origins(df, year, n)\<close> adds the column \<open>h_county\<close> to the frame it is given and
  prints the first \<open>n\<close> counties with their share of all jobs. The result is the frame
  as the function leaves it and the lines it prints, as (name, jobs, share).
\<close>

definition top_origins ::
    "'a lodes_row_scheme list \<Rightarrow> nat
       \<Rightarrow> 'a lodes_row_scheme list \<times> (string \<times> int \<times> fval) list" where
  "top_origins df n =
     (let df' = map set_h_county df;
          totals = county_totals df'
      in (df',
          map (\<lambda>(county_code, jobs).
                 (case map_of county_names county_code of
                    Some name \<Rightarrow> name
                  | None \<Rightarrow> ''County '' @ county_code,
                  jobs,
                  fmul (fdiv (Fin (of_int jobs)) (Fin (of_int (sum_list (map S000 df')))))
                       (Fin 100)))
              (take n totals)))"

subsection \<open>The script\<close>

text \<open>
  What a run of the script leaves behind: its exit status and, in order, the outcome
  messages it prints, the results of the aggregation and the tables it writes. The
  banners and the formatting of numbers are left out.
\<close>

datatype 'a event =
    Printed string
  | Uncaught py_error
  | Analyzed commute_stats
  | Origins string "(string \<times> int \<times> fval) list"
  | Saved string "'a lodes_row_scheme list"

record 'a run =
  exit_status :: nat
  events :: "'a event list"

definition lehd_script :: "(string \<Rightarrow> 'a lodes_row_scheme reader) \<Rightarrow> 'a run" where
  "lehd_script remote =
     (let df_2019 = fetch_lodes berkeley_tracts remote YEAR_PRE;
          df_2021 = fetch_lodes berkeley_tracts remote YEAR_POST
      in case (df_2019, df_2021) of
           (Some d19, Some d21) \<Rightarrow>
             (let berkeley_2019 = map set_h_tract d19;
                  berkeley_2021 = map set_h_tract d21
              in case analyze_commutes berkeley_tracts berkeley_2019 YEAR_PRE of
                   Inl e \<Rightarrow> \<lparr>exit_status = 1, events = [Uncaught e]\<rparr>
                 | Inr results_2019 \<Rightarrow>
                    (case analyze_commutes berkeley_tracts berkeley_2021 YEAR_POST of
                       Inl e \<Rightarrow> \<lparr>exit_status = 1, events = [Uncaught e]\<rparr>
                     | Inr results_2021 \<Rightarrow>
                        (let (b19, o19) = top_origins berkeley_2019 10;
                             (b21, o21) = top_origins berkeley_2021 10
                         in \<lparr>exit_status = 0,
                             events =
                               [Analyzed results_2019, Analyzed results_2021,
                                Origins YEAR_PRE o19, Origins YEAR_POST o21,
                                Saved ''data/lehd/berkeley_jobs_2019.csv'' b19,
                                Saved ''data/lehd/berkeley_jobs_2021.csv'' b21]\<rparr>)))
         | _ \<Rightarrow>
             \<lparr>exit_status = 1,
              events = [Printed (CHR 0x0A # '' Failed to fetch LEHD data'')]\<rparr>)"

section \<open>Census block groups\<close>

text \<open>
  A row of the ACS response after \<^verbatim>\<open>pd.to_numeric(..., errors='coerce')\<close>: the
  geography columns are strings, the variables are numeric cells (\<open>NaN\<close> where the
  response has no number).
\<close>

record acs_row =
  NAME :: string
  state :: string
  county :: string
  tract :: string
  block_group :: string
  median_household_income :: fval
  total_population :: fval
  total_enrollment :: fval
  college_grad_enrollment :: fval
  total_households :: fval
  no_vehicle_owner :: fval
  no_vehicle_renter :: fval
  pop_in_labor_force_universe :: fval
  in_labor_force :: fval
  unemployed :: fval
  total_housing_units :: fval

record acs_derived = acs_row +
  GEOID :: string
  student_population :: fval
  pct_students :: fval
  households_no_vehicle :: fval
  pct_no_vehicle :: fval
  unemployment_rate :: fval

text \<open>The derived columns, in the order the script assigns them.\<close>

definition derive :: "acs_row \<Rightarrow> acs_derived" where
  "derive r =
     (let geoid = state r @ county r @ tract r @ block_group r;
          students = college_grad_enrollment r;
          pct_st = round2 (fmul (fdiv students (total_population r)) (Fin 100));
          no_veh = fadd (no_vehicle_owner r) (no_vehicle_renter r);
          pct_nv = round2 (fmul (fdiv no_veh (total_households r)) (Fin 100));
          unemp = round2 (fmul (fdiv (unemployed r) (in_labor_force r)) (Fin 100))
      in acs_row.extend r
           (acs_derived.fields geoid students pct_st no_veh pct_nv unemp))"

text \<open>
  A block group of the TIGER file, with the columns the filters read; geometry and the
  merged demographics travel in the extension part. \<open>tract_num\<close> is the column the
  script adds.
\<close>

record bg_row =
  COUNTYFP :: string
  TRACTCE :: string
  tract_num :: "string option"

text \<open>\<^verbatim>\<open>f'{i:03d}'\<close>: decimal digits, padded with zeros on the left to three characters.\<close>

definition digit :: "nat \<Rightarrow> char" where
  "digit d = char_of (of_char CHR ''0'' + d)"

fun dec :: "nat \<Rightarrow> string" where
  "dec n = (if n < 10 then [digit n] else dec (n div 10) @ [digit (n mod 10)])"

declare dec.simps [simp del]

definition fmt_03d :: "nat \<Rightarrow> string" where
  "fmt_03d i = (let s = dec i in replicate (3 - length s) CHR ''0'' @ s)"

definition berkeley_tracts_bg :: "string list" where
  "berkeley_tracts_bg = map (\<lambda>i. ''4'' @ fmt_03d i) [220..<241]"

text \<open>The block groups of Alameda County: \<^verbatim>\<open>bg_geo[bg_geo['COUNTYFP'] == '001']\<close>.\<close>

definition alameda :: "'a bg_row_scheme list \<Rightarrow> 'a bg_row_scheme list" where
  "alameda bg_geo = filter (\<lambda>r. COUNTYFP r = ''001'') bg_geo"

text \<open>
  The filter to Berkeley: the first 4 characters of \<open>TRACTCE\<close> become the column
  \<open>tract_num\<close>, and the rows whose \<open>tract_num\<close> is in the list are kept. As above, the
  list is a parameter.
\<close>

definition set_tract_num :: "'a bg_row_scheme \<Rightarrow> 'a bg_row_scheme" where
  "set_tract_num r = r\<lparr>tract_num := Some (take 4 (TRACTCE r))\<rparr>"

definition berkeley_bg ::
    "string list \<Rightarrow> 'a bg_row_scheme list \<Rightarrow> 'a bg_row_scheme list" where
  "berkeley_bg tracts bg_geo =
     (let bg_geo' = map set_tract_num bg_geo
      in filter (\<lambda>r. isin (tract_num r) tracts) bg_geo')"





section \<open>The shape the two filters share\<close>

text \<open>
  Both filters select the rows whose identifier, cut to a fixed number of characters,
  is in a list. \<open>geo_filter\<close> is that selection with the width and the identifier
  column as parameters.
\<close>

definition geo_filter :: "nat \<Rightarrow> ('r \<Rightarrow> string) \<Rightarrow> string list \<Rightarrow> 'r list \<Rightarrow> 'r list" where
  "geo_filter w ident allow rows = filter (\<lambda>r. take w (ident r) \<in> set allow) rows"

section \<open>Sample data\<close>

text \<open>
  The chunk of the specification's end-to-end example, and small tables used to run the
  definitions: flows into and out of the study area, one of them with identifiers
  shorter than the truncation widths.
\<close>

definition lehd_example_chunk :: "lodes_row list" where
  "lehd_example_chunk =
     [\<lparr>w_geocode = ''06001400500001'', h_geocode = ''06075012345001'', S000 = 5,
       w_tract = None, h_tract = None, h_county = None\<rparr>]"

definition sample_flows :: "lodes_row list" where
  "sample_flows =
     [\<lparr>w_geocode = ''060014005001001'', h_geocode = ''060750123451001'', S000 = 5,
       w_tract = None, h_tract = None, h_county = None\<rparr>,
      \<lparr>w_geocode = ''060019999991001'', h_geocode = ''060014005001002'', S000 = 2,
       w_tract = None, h_tract = None, h_county = None\<rparr>,
      \<lparr>w_geocode = ''060014224001003'', h_geocode = ''060014218001000'', S000 = 7,
       w_tract = None, h_tract = None, h_county = None\<rparr>,
      \<lparr>w_geocode = ''0600'', h_geocode = ''06'', S000 = 1,
       w_tract = None, h_tract = None, h_county = None\<rparr>]"

definition sample_block_groups :: "bg_row list" where
  "sample_block_groups =
     [\<lparr>COUNTYFP = ''001'', TRACTCE = ''422400'', tract_num = None\<rparr>,
      \<lparr>COUNTYFP = ''001'', TRACTCE = ''400500'', tract_num = None\<rparr>,
      \<lparr>COUNTYFP = ''001'', TRACTCE = ''42'', tract_num = None\<rparr>]"

text \<open>
  Two remote files: one whose reader raises after the first chunk of 2019, one whose
  chunks for 2021 hold no job in the study area.
\<close>

definition failing_remote :: "string \<Rightarrow> lodes_row reader" where
  "failing_remote u =
     (if u = lodes_url YEAR_PRE then [Inr lehd_example_chunk, Inl (Exn ''connection reset'')]
      else [Inr lehd_example_chunk])"

definition outside_remote :: "string \<Rightarrow> lodes_row reader" where
  "outside_remote u =
     (if u = lodes_url YEAR_POST then [Inr (drop 3 sample_flows), Inr [sample_flows ! 1]]
      else [Inr lehd_example_chunk])"

text \<open>
  Block groups: two ACS rows with the numbers of the specification's end-to-end example
  (the first with 20 of 100 households without a vehicle, the second with 10 of 50) for
  the tracts 4005 and 9999.99 of Alameda County, and the TIGER block groups with the same
  \<open>GEOID\<close>s. A block group of 100 inhabitants in 40 households, 20 of them without a
  vehicle. A block group without population or households, and the same with one renter
  household without a vehicle. A frame of flows whose only row counts no job, and a frame
  of three flows whose counts are 64-bit integers with a total beyond \<open>2 ^ 63\<close>.
\<close>

definition acs_example_rows :: "acs_row list" where
  "acs_example_rows =
     [\<lparr>NAME = ''Block Group 1'', state = ''06'', county = ''001'', tract = ''400500'',
       block_group = ''1'', median_household_income = NaN, total_population = Fin 100,
       total_enrollment = Fin 30, college_grad_enrollment = Fin 10,
       total_households = Fin 100, no_vehicle_owner = Fin 20, no_vehicle_renter = Fin 0,
       pop_in_labor_force_universe = Fin 80, in_labor_force = Fin 60, unemployed = Fin 3,
       total_housing_units = Fin 110\<rparr>,
      \<lparr>NAME = ''Block Group 2'', state = ''06'', county = ''001'', tract = ''999999'',
       block_group = ''2'', median_household_income = NaN, total_population = Fin 50,
       total_enrollment = Fin 10, college_grad_enrollment = Fin 5,
       total_households = Fin 50, no_vehicle_owner = Fin 4, no_vehicle_renter = Fin 6,
       pop_in_labor_force_universe = Fin 40, in_labor_force = Fin 30, unemployed = Fin 1,
       total_housing_units = Fin 55\<rparr>]"



definition empty_block_group :: acs_row where
  "empty_block_group =
     \<lparr>NAME = ''Block Group 0'', state = ''06'', county = ''001'', tract = ''990000'',
      block_group = ''0'', median_household_income = NaN, total_population = Fin 0,
      total_enrollment = Fin 0, college_grad_enrollment = Fin 0,
      total_households = Fin 0, no_vehicle_owner = Fin 0, no_vehicle_renter = Fin 0,
      pop_in_labor_force_universe = Fin 0, in_labor_force = Fin 0, unemployed = Fin 0,
      total_housing_units = Fin 0\<rparr>"

definition odd_block_group :: acs_row where
  "odd_block_group = empty_block_group\<lparr>no_vehicle_renter := Fin 1\<rparr>"

definition zero_jobs_frame :: "lodes_row list" where
  "zero_jobs_frame =
     [\<lparr>w_geocode = ''060014005001001'', h_geocode = ''060750123451001'', S000 = 0,
       w_tract = Some ''06001400500'', h_tract = Some ''06075012345'', h_county = None\<rparr>]"

definition overflow_frame :: "lodes_row list" where
  "overflow_frame =
     [\<lparr>w_geocode = ''060014005001001'', h_geocode = ''060750123451001'',
       S000 = 9223372036854775807,
       w_tract = Some ''06001400500'', h_tract = Some ''06075012345'', h_county = None\<rparr>,
      \<lparr>w_geocode = ''060014005001001'', h_geocode = ''060014218001000'',
       S000 = 9223372036854775807,
       w_tract = Some ''06001400500'', h_tract = Some ''06001421800'', h_county = None\<rparr>,
      \<lparr>w_geocode = ''060014005001001'', h_geocode = ''060014218001002'',
       S000 = 3,
       w_tract = Some ''06001400500'', h_tract = Some ''06001421800'', h_county = None\<rparr>]"

section \<open>The geographic filters\<close>

lemma berkeley_chunk_conv:
  "berkeley_chunk tracts chunk =
     map set_w_tract (filter (\<lambda>r. take 11 (w_geocode r) \<in> set tracts) chunk)"
  by (simp add: berkeley_chunk_def filter_map o_def set_w_tract_def isin_def)

lemma berkeley_bg_conv:
  "berkeley_bg tracts bg_geo =
     map set_tract_num (filter (\<lambda>r. take 4 (TRACTCE r) \<in> set tracts) bg_geo)"
  by (simp add: berkeley_bg_def filter_map o_def set_tract_num_def isin_def)

text \<open>Both filters are \<open>geo_filter\<close> followed by the assignment of the new column.\<close>

lemma berkeley_chunk_geo_filter:
  "berkeley_chunk tracts chunk = map set_w_tract (geo_filter 11 w_geocode tracts chunk)"
  by (simp add: berkeley_chunk_conv geo_filter_def)

lemma berkeley_bg_geo_filter:
  "berkeley_bg tracts bg_geo = map set_tract_num (geo_filter 4 TRACTCE tracts bg_geo)"
  by (simp add: berkeley_bg_conv geo_filter_def)

lemma berkeley_tracts_bg_eq:
  "berkeley_tracts_bg =
     [''4220'', ''4221'', ''4222'', ''4223'', ''4224'', ''4225'', ''4226'', ''4227'',
      ''4228'', ''4229'', ''4230'', ''4231'', ''4232'', ''4233'', ''4234'', ''4235'',
      ''4236'', ''4237'', ''4238'', ''4239'', ''4240'']"
  by code_simp

text \<open>The county filter keeps rows as they are and has nothing left to remove afterwards.\<close>

lemma alameda_filter:
  "length (alameda bg_geo) \<le> length bg_geo"
  "set (alameda bg_geo) \<subseteq> set bg_geo"
  "alameda (alameda bg_geo) = alameda bg_geo"
  by (simp_all add: alameda_def)

text \<open>
  C1. Each filter returns at most as many rows as it is given, and the identifier of
  every row it returns, cut to the filter's width, is equal to an element of the
  allow-list. This holds for the LEHD filter on \<open>w_geocode[:11]\<close>, for the block-group
  filter on \<open>TRACTCE[:4]\<close>, and for every width and identifier column.
\<close>

theorem filter_output_within_allow_list:
  "length (berkeley_chunk tracts chunk) \<le> length chunk
   \<and> (\<forall>r \<in> set (berkeley_chunk tracts chunk). take 11 (w_geocode r) \<in> set tracts)
   \<and> length (berkeley_bg allow bg_geo) \<le> length bg_geo
   \<and> (\<forall>r \<in> set (berkeley_bg allow bg_geo). take 4 (TRACTCE r) \<in> set allow)
   \<and> length (geo_filter w ident ids rows) \<le> length rows
   \<and> (\<forall>r \<in> set (geo_filter w ident ids rows). take w (ident r) \<in> set ids)"
  by (auto simp: berkeley_chunk_conv berkeley_bg_conv geo_filter_def set_w_tract_def
        set_tract_num_def)

theorem filter_output_within_allow_list_witness:
  "length (berkeley_chunk berkeley_tracts sample_flows) = 2
   \<and> length sample_flows = 4
   \<and> map (\<lambda>r. take 11 (w_geocode r)) (berkeley_chunk berkeley_tracts sample_flows) =
       [''06001400500'', ''06001422400'']
   \<and> ''06001400500'' \<in> set berkeley_tracts
   \<and> ''06001422400'' \<in> set berkeley_tracts
   \<and> length (berkeley_bg berkeley_tracts_bg sample_block_groups) = 1
   \<and> map (\<lambda>r. take 4 (TRACTCE r)) (berkeley_bg berkeley_tracts_bg sample_block_groups) =
       [''4224'']
   \<and> ''4224'' \<in> set berkeley_tracts_bg"
  using filter_output_within_allow_list
    [of berkeley_tracts sample_flows berkeley_tracts_bg sample_block_groups
        11 w_geocode berkeley_tracts sample_flows]
  by (simp add: berkeley_chunk_conv berkeley_bg_conv sample_flows_def
        sample_block_groups_def berkeley_tracts_def berkeley_tracts_bg_eq
        set_w_tract_def set_tract_num_def)

text \<open>
  C5. Each filter, applied to its own output, returns that output: the column it
  assigns already holds the value it would assign, and every row passes the test again.
\<close>

theorem filter_idempotent:
  "berkeley_chunk tracts (berkeley_chunk tracts chunk) = berkeley_chunk tracts chunk
   \<and> berkeley_bg allow (berkeley_bg allow bg_geo) = berkeley_bg allow bg_geo
   \<and> geo_filter w ident ids (geo_filter w ident ids rows) = geo_filter w ident ids rows"
  by (simp add: berkeley_chunk_conv berkeley_bg_conv geo_filter_def filter_map o_def
        set_w_tract_def set_tract_num_def)

text \<open>
  C8. An identifier shorter than the truncation width is its own prefix. The derived
  column then holds the identifier itself, the identifier column is not changed, and
  the row is kept exactly when the whole identifier is an element of the allow-list.
  This is so for the width 11 of the tract filter, the width 4 of the block-group
  filter and the width 5 of the county key.
\<close>

theorem short_identifier_policy:
  "(length (w_geocode r) < 11 \<longrightarrow>
      w_tract (set_w_tract r) = Some (w_geocode r)
      \<and> w_geocode (set_w_tract r) = w_geocode r
      \<and> berkeley_chunk tracts [r] =
          (if w_geocode r \<in> set tracts then [set_w_tract r] else []))
   \<and> (length (TRACTCE b) < 4 \<longrightarrow>
      tract_num (set_tract_num b) = Some (TRACTCE b)
      \<and> TRACTCE (set_tract_num b) = TRACTCE b
      \<and> berkeley_bg allow [b] =
          (if TRACTCE b \<in> set allow then [set_tract_num b] else []))
   \<and> (length (h_geocode r) < 5 \<longrightarrow>
      h_county (set_h_county r) = Some (h_geocode r)
      \<and> h_geocode (set_h_county r) = h_geocode r)
   \<and> (length (ident x) < w \<longrightarrow>
      geo_filter w ident ids [x] = (if ident x \<in> set ids then [x] else []))"
  by (simp add: berkeley_chunk_conv berkeley_bg_conv geo_filter_def set_w_tract_def
        set_tract_num_def set_h_county_def)

theorem short_identifier_policy_witness:
  "length (w_geocode (sample_flows ! 3)) < 11
   \<and> berkeley_chunk berkeley_tracts [sample_flows ! 3] = []
   \<and> berkeley_chunk [''0600''] [sample_flows ! 3] =
       [\<lparr>w_geocode = ''0600'', h_geocode = ''06'', S000 = 1,
         w_tract = Some ''0600'', h_tract = None, h_county = None\<rparr>]
   \<and> length (TRACTCE (sample_block_groups ! 2)) < 4
   \<and> berkeley_bg berkeley_tracts_bg [sample_block_groups ! 2] = []
   \<and> berkeley_bg [''42''] [sample_block_groups ! 2] =
       [\<lparr>COUNTYFP = ''001'', TRACTCE = ''42'', tract_num = Some ''42''\<rparr>]
   \<and> length (h_geocode (sample_flows ! 3)) < 5
   \<and> h_county (set_h_county (sample_flows ! 3)) = Some ''06''"
  using short_identifier_policy
      [of "sample_flows ! 3" berkeley_tracts "sample_block_groups ! 2" berkeley_tracts_bg
          w_geocode "sample_flows ! 3" 11 berkeley_tracts]
    short_identifier_policy
      [of "sample_flows ! 3" "[''0600'']" "sample_block_groups ! 2" "[''42'']"
          w_geocode "sample_flows ! 3" 11 "[''0600'']"]
  by (simp add: sample_flows_def sample_block_groups_def berkeley_tracts_def
        berkeley_tracts_bg_eq set_w_tract_def set_tract_num_def)

text \<open>
  The allow-lists of the two scripts hold identifiers of the full width only, so with
  them a shorter identifier is always rejected.
\<close>

lemma short_identifiers_rejected:
  "length s < 11 \<Longrightarrow> s \<notin> set berkeley_tracts"
  "length t < 4 \<Longrightarrow> t \<notin> set berkeley_tracts_bg"
  by (auto simp: berkeley_tracts_def berkeley_tracts_bg_eq)

section \<open>Reading in chunks\<close>

lemma berkeley_chunk_append:
  "berkeley_chunk tracts (xs @ ys) = berkeley_chunk tracts xs @ berkeley_chunk tracts ys"
  by (simp add: berkeley_chunk_conv)

lemma berkeley_chunk_concat:
  "berkeley_chunk tracts (concat cs) = concat (map (berkeley_chunk tracts) cs)"
proof (induction cs)
  case Nil
  show ?case by (simp add: berkeley_chunk_conv)
next
  case (Cons c cs)
  then show ?case by (simp add: berkeley_chunk_append)
qed

lemma concat_filter_nonempty: "concat (filter (\<lambda>c. c \<noteq> []) xs) = concat xs"
  by (induction xs) simp_all

text \<open>
  Without an exception the loop ends with the non-empty filtered chunks, in the order
  of the chunks, after whatever the accumulator held.
\<close>

lemma read_loop_chunks:
  "read_loop tracts (map Inr cs) acc =
     Inr (acc @ filter (\<lambda>c. c \<noteq> []) (map (berkeley_chunk tracts) cs))"
  by (induction cs arbitrary: acc) (simp_all add: Let_def)

lemma fetch_lodes_chunks:
  assumes "remote (lodes_url yr) = map Inr cs"
  shows "fetch_lodes tracts remote yr =
           (if berkeley_chunk tracts (concat cs) = [] then None
            else Some (berkeley_chunk tracts (concat cs)))"
proof -
  let ?kept = "filter (\<lambda>c. c \<noteq> []) (map (berkeley_chunk tracts) cs)"
  have loop: "read_loop tracts (remote (lodes_url yr)) [] = Inr ?kept"
    using assms by (simp add: read_loop_chunks)
  have cat: "concat ?kept = berkeley_chunk tracts (concat cs)"
    by (simp add: concat_filter_nonempty berkeley_chunk_concat)
  have nonempty: "[] \<notin> set ?kept"
    by simp
  have "(?kept = []) = (berkeley_chunk tracts (concat cs) = [])"
  proof
    assume "?kept = []"
    with cat show "berkeley_chunk tracts (concat cs) = []" by simp
  next
    assume "berkeley_chunk tracts (concat cs) = []"
    with cat have "\<forall>c \<in> set ?kept. c = []" by simp
    with nonempty show "?kept = []" by (cases ?kept) auto
  qed
  then show ?thesis
    using loop cat by (simp add: fetch_lodes_def)
qed

text \<open>
  C7. When the reader yields the chunks \<open>cs\<close> and no exception, the loop collects
  non-empty chunks whose concatenation is the filter applied to the concatenation of
  \<open>cs\<close>: the same rows in the same order. \<^verbatim>\<open>fetch_lodes\<close> returns that table, or
  \<open>None\<close> when it is empty. For the example chunk and the workplace tract 06001400500
  the row is kept and \<open>S000\<close> sums to 5.
\<close>

theorem chunked_equals_whole:
  assumes "remote (lodes_url yr) = map Inr cs"
  shows "(\<exists>kept. read_loop tracts (remote (lodes_url yr)) [] = Inr kept
            \<and> [] \<notin> set kept
            \<and> concat kept = berkeley_chunk tracts (concat cs))
         \<and> fetch_lodes tracts remote yr =
             (if berkeley_chunk tracts (concat cs) = [] then None
              else Some (berkeley_chunk tracts (concat cs)))
         \<and> berkeley_chunk [''06001400500''] lehd_example_chunk =
             [\<lparr>w_geocode = ''06001400500001'', h_geocode = ''06075012345001'', S000 = 5,
               w_tract = Some ''06001400500'', h_tract = None, h_county = None\<rparr>]
         \<and> sum_list (map S000 (berkeley_chunk [''06001400500''] lehd_example_chunk)) = 5"
proof -
  let ?kept = "filter (\<lambda>c. c \<noteq> []) (map (berkeley_chunk tracts) cs)"
  have loop: "read_loop tracts (remote (lodes_url yr)) [] = Inr ?kept"
    using assms by (simp add: read_loop_chunks)
  have cat: "concat ?kept = berkeley_chunk tracts (concat cs)"
    by (simp add: concat_filter_nonempty berkeley_chunk_concat)
  have nonempty: "[] \<notin> set ?kept"
    by simp
  note fetch = fetch_lodes_chunks [of remote yr cs tracts, OF assms]
  have example: "berkeley_chunk [''06001400500''] lehd_example_chunk =
             [\<lparr>w_geocode = ''06001400500001'', h_geocode = ''06075012345001'', S000 = 5,
               w_tract = Some ''06001400500'', h_tract = None, h_county = None\<rparr>]"
    by (simp add: berkeley_chunk_conv lehd_example_chunk_def set_w_tract_def)
  from loop cat nonempty fetch example show ?thesis by auto
qed

theorem chunked_equals_whole_witness:
  "fetch_lodes [''06001400500''] (\<lambda>u. [Inr lehd_example_chunk]) YEAR_PRE =
     Some [\<lparr>w_geocode = ''06001400500001'', h_geocode = ''06075012345001'', S000 = 5,
            w_tract = Some ''06001400500'', h_tract = None, h_county = None\<rparr>]
   \<and> fetch_lodes berkeley_tracts (\<lambda>u. [Inr (take 2 sample_flows), Inr (drop 2 sample_flows)])
       YEAR_PRE = Some (berkeley_chunk berkeley_tracts sample_flows)
   \<and> length (berkeley_chunk berkeley_tracts sample_flows) = 2"
  using chunked_equals_whole
      [of "\<lambda>u. [Inr lehd_example_chunk]" YEAR_PRE "[lehd_example_chunk]"
          "[''06001400500'']"]
    chunked_equals_whole
      [of "\<lambda>u. [Inr (take 2 sample_flows), Inr (drop 2 sample_flows)]" YEAR_PRE
          "[take 2 sample_flows, drop 2 sample_flows]" berkeley_tracts]
  by (simp add: berkeley_chunk_conv lehd_example_chunk_def sample_flows_def
        set_w_tract_def berkeley_tracts_def)

section \<open>Commute analysis: partition of the total\<close>

lemma sum_list_filter_split:
  fixes f :: "'a \<Rightarrow> int"
  shows "sum_list (map f (filter P xs)) + sum_list (map f (filter (\<lambda>x. \<not> P x) xs)) =
         sum_list (map f xs)"
  by (induction xs) simp_all

lemma sum_list_filter_nonneg:
  fixes f :: "'a \<Rightarrow> int"
  assumes "\<forall>x \<in> set xs. 0 \<le> f x"
  shows "0 \<le> sum_list (map f (filter P xs))"
  using assms by (induction xs) simp_all

lemma pct_in_range:
  fixes n d :: rat
  assumes "0 \<le> n" "n \<le> d" "d \<noteq> 0"
  shows "0 \<le> n / d * 100 \<and> n / d * 100 \<le> 100"
proof -
  from assms have d: "0 < d" by simp
  with assms have lo: "0 \<le> n / d" and hi: "n / d \<le> 1" by simp_all
  from lo have "0 \<le> n / d * 100" by (rule mult_nonneg_nonneg) simp
  moreover from hi have "n / d * 100 \<le> 1 * 100" by (rule mult_right_mono) simp
  ultimately show ?thesis by simp
qed

text \<open>The 64-bit wrap-around: a value in range is kept, and wrapping is a congruence.\<close>

lemma int64_id:
  assumes "- (2 ^ 63) \<le> x" and "x < 2 ^ 63"
  shows "int64 x = x"
proof -
  from assms have "0 \<le> x + 2 ^ 63" and "x + 2 ^ 63 < 2 ^ 64" by simp_all
  then have "(x + 2 ^ 63) mod 2 ^ 64 = x + 2 ^ 63" by (rule mod_pos_pos_trivial)
  then show ?thesis by (simp add: int64_def)
qed

lemma int64_cong:
  assumes "x mod 2 ^ 64 = y mod 2 ^ 64"
  shows "int64 x = int64 y"
proof -
  have "(x + 2 ^ 63) mod 2 ^ 64 = (x mod 2 ^ 64 + 2 ^ 63) mod 2 ^ 64"
    by (simp only: mod_add_left_eq)
  also have "\<dots> = (y mod 2 ^ 64 + 2 ^ 63) mod 2 ^ 64"
    by (simp only: assms)
  also have "\<dots> = (y + 2 ^ 63) mod 2 ^ 64"
    by (simp only: mod_add_left_eq)
  finally show ?thesis by (simp only: int64_def)
qed

lemma int64_mod: "int64 x mod 2 ^ 64 = x mod 2 ^ 64"
proof -
  have "int64 x mod 2 ^ 64 = ((x + 2 ^ 63) mod 2 ^ 64 - 2 ^ 63) mod 2 ^ 64"
    by (simp only: int64_def)
  also have "\<dots> = (x + 2 ^ 63 - 2 ^ 63) mod 2 ^ 64"
    by (simp only: mod_diff_left_eq)
  finally show ?thesis by simp
qed

lemma int64_add: "int64 (int64 a + int64 b) = int64 (a + b)"
proof (rule int64_cong)
  have "(int64 a + int64 b) mod 2 ^ 64 = (int64 a mod 2 ^ 64 + int64 b mod 2 ^ 64) mod 2 ^ 64"
    by (simp only: mod_add_eq)
  also have "\<dots> = (a mod 2 ^ 64 + b mod 2 ^ 64) mod 2 ^ 64"
    by (simp only: int64_mod)
  also have "\<dots> = (a + b) mod 2 ^ 64"
    by (simp only: mod_add_eq)
  finally show "(int64 a + int64 b) mod 2 ^ 64 = (a + b) mod 2 ^ 64" .
qed

text \<open>With both columns present \<^verbatim>\<open>analyze_commutes\<close> returns its dictionary.\<close>

lemma analyze_commutes_present:
  assumes "\<forall>r \<in> set df. h_tract r \<noteq> None \<and> w_tract r \<noteq> None"
  shows "analyze_commutes tracts df yr =
     Inr \<lparr>year = yr, total_jobs = sum_int64 (map S000 df),
          same_tract = sum_int64 (map S000 (filter (\<lambda>r. h_tract r = w_tract r) df)),
          live_work_berkeley =
            sum_int64 (map S000 (filter (\<lambda>r. isin (h_tract r) tracts) df)),
          commute_in =
            sum_int64 (map S000 (filter (\<lambda>r. \<not> isin (h_tract r) tracts) df)),
          pct_commute_in =
            (if sum_int64 (map S000 df) > 0
             then fmul (fdiv
                    (Fin (of_int
                      (sum_int64 (map S000 (filter (\<lambda>r. \<not> isin (h_tract r) tracts) df)))))
                    (Fin (of_int (sum_int64 (map S000 df))))) (Fin 100)
             else Fin 0)\<rparr>"
  using assms by (simp add: analyze_commutes_def Let_def)

text \<open>
  C10 (as stated, refuted). Three flows with counts that are not negative: one worker
  group living outside the listed tracts, two living inside. The 64-bit total wraps to
  1, the guard \<^verbatim>\<open>total > 0\<close> passes, and \<open>pct_commute_in\<close> is far above 100.
\<close>

theorem commute_partition_overflow:
  "map S000 overflow_frame = [9223372036854775807, 9223372036854775807, 3]
   \<and> map (\<lambda>r. isin (h_tract r) berkeley_tracts) overflow_frame = [False, True, True]
   \<and> analyze_commutes berkeley_tracts overflow_frame YEAR_PRE =
       Inr \<lparr>year = ''2019'', total_jobs = 1, same_tract = 0,
            live_work_berkeley = - 9223372036854775806,
            commute_in = 9223372036854775807,
            pct_commute_in = Fin 922337203685477580700\<rparr>"
  by (simp add: overflow_frame_def analyze_commutes_def isin_def berkeley_tracts_def
      sum_int64_def int64_def YEAR_PRE_def)

text \<open>
  C10 (amended). On a frame that has the columns \<open>h_tract\<close> and \<open>w_tract\<close>,
  \<^verbatim>\<open>analyze_commutes\<close> returns a result whose three sums are the 64-bit sums over the rows
  with home tract in the list, over the rows with home tract not in the list, and over
  all rows; the first two add up to the third modulo \<open>2 ^ 64\<close>. When no count is negative
  and the counts add up to less than \<open>2 ^ 63\<close>, nothing wraps: the two partial sums add up
  to the total exactly, and \<open>pct_commute_in\<close> is a finite number between 0 and 100
  whenever the total is positive.
\<close>

theorem commute_partition:
  assumes "\<forall>r \<in> set df. h_tract r \<noteq> None \<and> w_tract r \<noteq> None"
  shows "\<exists>res. analyze_commutes tracts df yr = Inr res
          \<and> live_work_berkeley res =
              sum_int64 (map S000 (filter (\<lambda>r. isin (h_tract r) tracts) df))
          \<and> commute_in res =
              sum_int64 (map S000 (filter (\<lambda>r. \<not> isin (h_tract r) tracts) df))
          \<and> total_jobs res = sum_int64 (map S000 df)
          \<and> int64 (live_work_berkeley res + commute_in res) = total_jobs res
          \<and> ((\<forall>r \<in> set df. 0 \<le> S000 r) \<and> sum_list (map S000 df) < 2 ^ 63 \<longrightarrow>
               live_work_berkeley res =
                 sum_list (map S000 (filter (\<lambda>r. isin (h_tract r) tracts) df))
               \<and> commute_in res =
                 sum_list (map S000 (filter (\<lambda>r. \<not> isin (h_tract r) tracts) df))
               \<and> total_jobs res = sum_list (map S000 df)
               \<and> live_work_berkeley res + commute_in res = total_jobs res
               \<and> (0 < total_jobs res \<longrightarrow>
                    (\<exists>p. pct_commute_in res = Fin p \<and> 0 \<le> p \<and> p \<le> 100)))"
proof -
  let ?lwb = "sum_list (map S000 (filter (\<lambda>r. isin (h_tract r) tracts) df))"
  let ?ci = "sum_list (map S000 (filter (\<lambda>r. \<not> isin (h_tract r) tracts) df))"
  let ?total = "sum_list (map S000 df)"
  let ?res = "\<lparr>year = yr, total_jobs = int64 ?total,
               same_tract = sum_int64 (map S000 (filter (\<lambda>r. h_tract r = w_tract r) df)),
               live_work_berkeley = int64 ?lwb, commute_in = int64 ?ci,
               pct_commute_in =
                 (if int64 ?total > 0
                  then fmul (fdiv (Fin (of_int (int64 ?ci))) (Fin (of_int (int64 ?total))))
                         (Fin 100)
                  else Fin 0)\<rparr>"
  have run: "analyze_commutes tracts df yr = Inr ?res"
    using analyze_commutes_present [OF assms, of tracts yr]
    by (simp only: sum_int64_def)
  have part: "?lwb + ?ci = ?total"
    by (rule sum_list_filter_split)
  have wrapped: "int64 (int64 ?lwb + int64 ?ci) = int64 ?total"
    by (simp only: int64_add part)
  have exact: "int64 ?lwb = ?lwb \<and> int64 ?ci = ?ci \<and> int64 ?total = ?total"
    if nonneg: "\<forall>r \<in> set df. 0 \<le> S000 r" and small: "?total < 2 ^ 63"
  proof -
    have lo: "0 \<le> ?lwb" "0 \<le> ?ci"
      using nonneg by (simp_all add: sum_list_filter_nonneg)
    with part small have hi: "?lwb < 2 ^ 63" "?ci < 2 ^ 63" "0 \<le> ?total"
      by simp_all
    have neg: "- (2 ^ 63) \<le> (0::int)" by simp
    from lo hi neg have "- (2 ^ 63) \<le> ?lwb" "- (2 ^ 63) \<le> ?ci" "- (2 ^ 63) \<le> ?total"
      by (simp_all only: order_trans [OF neg])
    with hi small show ?thesis by (simp only: int64_id simp_thms)
  qed
  have pct: "\<exists>p. pct_commute_in ?res = Fin p \<and> 0 \<le> p \<and> p \<le> 100"
    if nonneg: "\<forall>r \<in> set df. 0 \<le> S000 r" and small: "?total < 2 ^ 63"
      and pos: "0 < int64 ?total"
  proof -
    from exact [OF nonneg small]
    have ci: "int64 ?ci = ?ci" and total: "int64 ?total = ?total" by simp_all
    have "0 \<le> ?lwb" "0 \<le> ?ci"
      using nonneg by (simp_all add: sum_list_filter_nonneg)
    with part have "0 \<le> (of_int ?ci :: rat)" "(of_int ?ci :: rat) \<le> of_int ?total"
      by simp_all
    moreover have "(of_int ?total :: rat) \<noteq> 0" using pos total by simp
    ultimately have "0 \<le> (of_int ?ci :: rat) / of_int ?total * 100
        \<and> (of_int ?ci :: rat) / of_int ?total * 100 \<le> 100"
      by (rule pct_in_range)
    with pos total ci show ?thesis by simp
  qed
  show ?thesis
    apply (rule exI [of _ ?res])
    using run part wrapped exact pct by (simp add: sum_int64_def)
qed

text \<open>The frames the script passes to \<^verbatim>\<open>analyze_commutes\<close> have both columns.\<close>

lemma pipeline_columns_present:
  "\<forall>r \<in> set (map set_h_tract (berkeley_chunk tracts chunk)).
     h_tract r \<noteq> None \<and> w_tract r \<noteq> None"
  by (simp add: berkeley_chunk_conv set_h_tract_def set_w_tract_def)

theorem commute_partition_witness:
  "analyze_commutes berkeley_tracts
       (map set_h_tract (berkeley_chunk berkeley_tracts sample_flows)) YEAR_PRE =
     Inr \<lparr>year = ''2019'', total_jobs = 12, same_tract = 0, live_work_berkeley = 7,
          commute_in = 5, pct_commute_in = Fin (125 / 3)\<rparr>
   \<and> map S000 (berkeley_chunk berkeley_tracts sample_flows) = [5, 7]"
  using commute_partition
    [of "map set_h_tract (berkeley_chunk berkeley_tracts sample_flows)" berkeley_tracts
        YEAR_PRE]
  by (simp add: analyze_commutes_def berkeley_chunk_conv sample_flows_def
      set_h_tract_def set_w_tract_def berkeley_tracts_def isin_def YEAR_PRE_def
      sum_int64_def int64_def)

section \<open>The script aborts when a fetch fails\<close>

lemma read_loop_exception:
  "Inl e \<in> set evs \<Longrightarrow> \<exists>e'. read_loop tracts evs acc = Inl e'"
proof (induction evs arbitrary: acc)
  case Nil
  then show ?case by simp
next
  case (Cons ev evs)
  show ?case
  proof (cases ev)
    case (Inl x)
    then show ?thesis by simp
  next
    case (Inr chunk)
    with Cons.prems have mem: "Inl e \<in> set evs" by auto
    let ?acc = "if length (berkeley_chunk tracts chunk) > 0
                then acc @ [berkeley_chunk tracts chunk] else acc"
    have "read_loop tracts (ev # evs) acc = read_loop tracts evs ?acc"
      by (simp only: Inr read_loop.simps Let_def)
    moreover from Cons.IH [OF mem] obtain e' where "read_loop tracts evs ?acc = Inl e'"
      by blast
    ultimately show ?thesis by simp
  qed
qed


lemma no_exception_chunks:
  assumes "\<forall>e. Inl e \<notin> set evs"
  shows "\<exists>cs. evs = map Inr cs"
  unfolding ex_map_conv
proof
  fix ev assume "ev \<in> set evs"
  with assms show "\<exists>c. ev = Inr c" by (cases ev) auto
qed

lemma fetch_lodes_None_iff:
  "(fetch_lodes tracts remote yr = None) =
     ((\<exists>e. Inl e \<in> set (remote (lodes_url yr)))
      \<or> (\<forall>c. Inr c \<in> set (remote (lodes_url yr)) \<longrightarrow> berkeley_chunk tracts c = []))"
proof (cases "\<exists>e. Inl e \<in> set (remote (lodes_url yr))")
  case True
  then obtain e where "Inl e \<in> set (remote (lodes_url yr))" ..
  from read_loop_exception [OF this]
  obtain e' where "read_loop tracts (remote (lodes_url yr)) [] = Inl e'" ..
  then have "fetch_lodes tracts remote yr = None" by (simp add: fetch_lodes_def)
  with True show ?thesis by simp
next
  case False
  then have "\<forall>e. Inl e \<notin> set (remote (lodes_url yr))" by simp
  from no_exception_chunks [OF this]
  obtain cs where cs: "remote (lodes_url yr) = map Inr cs" ..
  have "read_loop tracts (remote (lodes_url yr)) [] =
      Inr (filter (\<lambda>c. c \<noteq> []) (map (berkeley_chunk tracts) cs))"
    by (simp add: cs read_loop_chunks)
  then have "(fetch_lodes tracts remote yr = None) =
      (filter (\<lambda>c. c \<noteq> []) (map (berkeley_chunk tracts) cs) = [])"
    by (simp add: fetch_lodes_def)
  also have "\<dots> = (\<forall>c \<in> set cs. berkeley_chunk tracts c = [])"
    by (simp add: filter_empty_conv)
  also have "\<dots> = (\<forall>c. Inr c \<in> set (remote (lodes_url yr)) \<longrightarrow> berkeley_chunk tracts c = [])"
    unfolding cs by (simp add: image_iff) blast
  finally show ?thesis using False by simp
qed


lemma abort_if_missing:
  assumes "fetch_lodes berkeley_tracts remote YEAR_PRE = None
        \<or> fetch_lodes berkeley_tracts remote YEAR_POST = None"
  shows "lehd_script remote =
        \<lparr>exit_status = 1,
         events = [Printed (CHR 0x0A # '' Failed to fetch LEHD data'')]\<rparr>"
proof (cases "fetch_lodes berkeley_tracts remote YEAR_PRE")
  case None
  then show ?thesis by (simp add: lehd_script_def)
next
  case (Some d19)
  with assms have "fetch_lodes berkeley_tracts remote YEAR_POST = None" by simp
  with Some show ?thesis by (simp add: lehd_script_def)
qed

text \<open>
  C9. \<^verbatim>\<open>fetch_lodes\<close> returns no table exactly when the reader raises or no chunk has a
  row whose workplace tract is in the list. When that happens for either year, the
  script prints its diagnostic and exits with status 1; nothing is aggregated and no
  file is written.
\<close>

theorem failed_fetch_aborts:
  "((fetch_lodes berkeley_tracts remote yr = None) =
      ((\<exists>e. Inl e \<in> set (remote (lodes_url yr)))
       \<or> (\<forall>c. Inr c \<in> set (remote (lodes_url yr)) \<longrightarrow>
             berkeley_chunk berkeley_tracts c = [])))
   \<and> (fetch_lodes berkeley_tracts remote YEAR_PRE = None
        \<or> fetch_lodes berkeley_tracts remote YEAR_POST = None \<longrightarrow>
      lehd_script remote =
        \<lparr>exit_status = 1,
         events = [Printed (CHR 0x0A # '' Failed to fetch LEHD data'')]\<rparr>)"
  using fetch_lodes_None_iff [of berkeley_tracts remote yr] abort_if_missing [of remote]
  by (intro conjI impI)

theorem failed_fetch_aborts_witness:
  "fetch_lodes berkeley_tracts failing_remote YEAR_PRE = None
   \<and> lehd_script failing_remote =
        \<lparr>exit_status = 1,
         events = [Printed (CHR 0x0A # '' Failed to fetch LEHD data'')]\<rparr>
   \<and> fetch_lodes berkeley_tracts outside_remote YEAR_POST = None
   \<and> lehd_script outside_remote =
        \<lparr>exit_status = 1,
         events = [Printed (CHR 0x0A # '' Failed to fetch LEHD data'')]\<rparr>"
proof -
  have a: "fetch_lodes berkeley_tracts failing_remote YEAR_PRE = None"
    by (simp add: fetch_lodes_def failing_remote_def)
  have b: "fetch_lodes berkeley_tracts outside_remote YEAR_POST = None"
    by (simp add: fetch_lodes_def outside_remote_def sample_flows_def berkeley_chunk_conv
        berkeley_tracts_def)
  from a have "lehd_script failing_remote =
        \<lparr>exit_status = 1,
         events = [Printed (CHR 0x0A # '' Failed to fetch LEHD data'')]\<rparr>"
    by (simp add: failed_fetch_aborts [of failing_remote YEAR_PRE, THEN conjunct2, rule_format])
  moreover from b have "lehd_script outside_remote =
        \<lparr>exit_status = 1,
         events = [Printed (CHR 0x0A # '' Failed to fetch LEHD data'')]\<rparr>"
    by (simp add: failed_fetch_aborts [of outside_remote YEAR_POST, THEN conjunct2, rule_format])
  ultimately show ?thesis using a b by simp
qed

text \<open>
  When both years are fetched, the script runs to its end: the frames have the columns
  \<^verbatim>\<open>analyze_commutes\<close> reads, so no \<^verbatim>\<open>KeyError\<close> is raised.
\<close>

lemma fetch_lodes_columns:
  assumes "fetch_lodes tracts remote yr = Some df"
  shows "\<forall>r \<in> set (map set_h_tract df). h_tract r \<noteq> None \<and> w_tract r \<noteq> None"
proof -
  from assms have "fetch_lodes tracts remote yr \<noteq> None" by simp
  then have "\<forall>e. Inl e \<notin> set (remote (lodes_url yr))"
    unfolding fetch_lodes_None_iff by simp
  from no_exception_chunks [OF this]
  obtain cs where "remote (lodes_url yr) = map Inr cs" ..
  from fetch_lodes_chunks [of remote yr cs tracts, OF this]
  have "fetch_lodes tracts remote yr =
             (if berkeley_chunk tracts (concat cs) = [] then None
              else Some (berkeley_chunk tracts (concat cs)))" .
  with assms have "df = berkeley_chunk tracts (concat cs)"
    by (simp split: if_splits)
  then show ?thesis using pipeline_columns_present [of tracts "concat cs"] by simp
qed

lemma lehd_script_success:
  assumes "fetch_lodes berkeley_tracts remote YEAR_PRE = Some d19"
      and "fetch_lodes berkeley_tracts remote YEAR_POST = Some d21"
  shows "\<exists>r19 r21.
           analyze_commutes berkeley_tracts (map set_h_tract d19) YEAR_PRE = Inr r19
         \<and> analyze_commutes berkeley_tracts (map set_h_tract d21) YEAR_POST = Inr r21
         \<and> lehd_script remote =
            \<lparr>exit_status = 0,
             events =
               [Analyzed r19, Analyzed r21,
                Origins YEAR_PRE (snd (top_origins (map set_h_tract d19) 10)),
                Origins YEAR_POST (snd (top_origins (map set_h_tract d21) 10)),
                Saved ''data/lehd/berkeley_jobs_2019.csv''
                  (fst (top_origins (map set_h_tract d19) 10)),
                Saved ''data/lehd/berkeley_jobs_2021.csv''
                  (fst (top_origins (map set_h_tract d21) 10))]\<rparr>"
proof -
  from analyze_commutes_present [OF fetch_lodes_columns [OF assms(1)], of berkeley_tracts YEAR_PRE]
  obtain r19 where r19:
      "analyze_commutes berkeley_tracts (map set_h_tract d19) YEAR_PRE = Inr r19" ..
  from analyze_commutes_present [OF fetch_lodes_columns [OF assms(2)], of berkeley_tracts YEAR_POST]
  obtain r21 where r21:
      "analyze_commutes berkeley_tracts (map set_h_tract d21) YEAR_POST = Inr r21" ..
  have "lehd_script remote =
            \<lparr>exit_status = 0,
             events =
               [Analyzed r19, Analyzed r21,
                Origins YEAR_PRE (snd (top_origins (map set_h_tract d19) 10)),
                Origins YEAR_POST (snd (top_origins (map set_h_tract d21) 10)),
                Saved ''data/lehd/berkeley_jobs_2019.csv''
                  (fst (top_origins (map set_h_tract d19) 10)),
                Saved ''data/lehd/berkeley_jobs_2021.csv''
                  (fst (top_origins (map set_h_tract d21) 10))]\<rparr>"
    using assms r19 r21 by (simp add: lehd_script_def split_beta Let_def)
  with r19 r21 show ?thesis by blast
qed

text \<open>A run on a remote that serves the example chunk for both years ends with status 0.\<close>

lemma lehd_script_sample_run:
  "exit_status (lehd_script (\<lambda>u. [Inr lehd_example_chunk])) = 0
   \<and> length (events (lehd_script (\<lambda>u. [Inr lehd_example_chunk]))) = 6"
proof -
  have "fetch_lodes berkeley_tracts (\<lambda>u. [Inr lehd_example_chunk]) yr =
      Some (berkeley_chunk berkeley_tracts lehd_example_chunk)" for yr
    by (simp add: fetch_lodes_def berkeley_chunk_conv lehd_example_chunk_def
        berkeley_tracts_def)
  from lehd_script_success [OF this this]
  show ?thesis by auto
qed

section \<open>Sums by group\<close>

















section \<open>Ratios\<close>

text \<open>The columns of a row after \<open>derive\<close>.\<close>

lemma derive_sel:
  "pct_students (derive r) =
     round2 (fmul (fdiv (college_grad_enrollment r) (total_population r)) (Fin 100))"
  "households_no_vehicle (derive r) = fadd (no_vehicle_owner r) (no_vehicle_renter r)"
  "pct_no_vehicle (derive r) =
     round2 (fmul (fdiv (fadd (no_vehicle_owner r) (no_vehicle_renter r)) (total_households r))
               (Fin 100))"
  "unemployment_rate (derive r) =
     round2 (fmul (fdiv (unemployed r) (in_labor_force r)) (Fin 100))"
  "student_population (derive r) = college_grad_enrollment r"
  "GEOID (derive r) = state r @ county r @ tract r @ block_group r"
  by (simp_all add: derive_def Let_def acs_row.defs acs_derived.defs)

lemma derive_base:
  "tract (derive r) = tract r"
  "total_households (derive r) = total_households r"
  "total_population (derive r) = total_population r"
  "in_labor_force (derive r) = in_labor_force r"
  by (simp_all add: derive_def Let_def acs_row.defs acs_derived.defs)

lemma rint_bounds:
  assumes "0 \<le> x" "x \<le> of_int m"
  shows "0 \<le> rint x \<and> rint x \<le> m"
proof -
  let ?f = "\<lfloor>x\<rfloor>"
  from assms have f0: "0 \<le> ?f" by simp
  from assms have fm: "?f \<le> m" by (simp add: floor_le_iff)
  have up: "?f + 1 \<le> m" if "x - of_int ?f \<noteq> 0"
  proof -
    have "of_int ?f \<le> x" by (rule of_int_floor_le)
    moreover from that have "of_int ?f \<noteq> x" by auto
    ultimately have "of_int ?f < x" by (rule order.not_eq_order_implies_strict [rotated])
    with assms have "(of_int ?f :: rat) < of_int m" by simp
    then show ?thesis by simp
  qed
  show ?thesis
    using f0 fm up by (auto simp: rint_def Let_def)
qed

lemma ratio_in_range:
  assumes "0 \<le> n" "n \<le> d" "d \<noteq> 0"
  shows "\<exists>p. round2 (fmul (fdiv (Fin n) (Fin d)) (Fin 100)) = Fin p \<and> 0 \<le> p \<and> p \<le> 100"
proof -
  let ?x = "n / d * 100"
  from pct_in_range [OF assms] have x: "0 \<le> ?x" "?x \<le> 100" by simp_all
  then have "0 \<le> ?x * 100" "?x * 100 \<le> of_int 10000" by simp_all
  then have r: "0 \<le> rint (?x * 100) \<and> rint (?x * 100) \<le> 10000" by (rule rint_bounds)
  let ?p = "(of_int (rint (?x * 100)) :: rat) / 100"
  from r have "0 \<le> ?p" by simp
  moreover from r have "(of_int (rint (?x * 100)) :: rat) \<le> 10000"
    by (metis of_int_le_iff of_int_numeral)
  then have "?p \<le> 100" by simp
  moreover have "round2 (fmul (fdiv (Fin n) (Fin d)) (Fin 100)) = Fin ?p"
    using assms by simp
  ultimately show ?thesis by blast
qed

lemma ratio_zero_denominator:
  "round2 (fmul (fdiv x (Fin 0)) (Fin 100)) =
     (case x of Fin n \<Rightarrow> if n = 0 then NaN else if 0 < n then PInf else NInf
      | PInf \<Rightarrow> PInf | NInf \<Rightarrow> NInf | NaN \<Rightarrow> NaN)"
  by (cases x) simp_all


lemma analyze_commutes_InrD:
  assumes "analyze_commutes tracts df yr = Inr res"
  shows "total_jobs res = sum_int64 (map S000 df)"
    and "commute_in res =
           sum_int64 (map S000 (filter (\<lambda>r. \<not> isin (h_tract r) tracts) df))"
    and "pct_commute_in res =
           (if total_jobs res > 0
            then fmul (fdiv (Fin (of_int (commute_in res))) (Fin (of_int (total_jobs res))))
                   (Fin 100)
            else Fin 0)"
  using assms by (auto simp: analyze_commutes_def Let_def split: if_splits)

text \<open>
  C3. Each percentage of the block-group script, and \<open>pct_commute_in\<close>, is a finite
  number between 0 and 100 when numerator and denominator are finite and not negative,
  the numerator is at most the denominator and the denominator is not zero. For
  \<open>pct_no_vehicle\<close> the numerator is the sum of the two no-vehicle columns.
\<close>

theorem ratio_within_0_100:
  "(college_grad_enrollment r = Fin n1 \<and> total_population r = Fin d1
      \<and> 0 \<le> n1 \<and> n1 \<le> d1 \<and> d1 \<noteq> 0 \<longrightarrow>
      (\<exists>p. pct_students (derive r) = Fin p \<and> 0 \<le> p \<and> p \<le> 100))
   \<and> (fadd (no_vehicle_owner r) (no_vehicle_renter r) = Fin n2 \<and> total_households r = Fin d2
      \<and> 0 \<le> n2 \<and> n2 \<le> d2 \<and> d2 \<noteq> 0 \<longrightarrow>
      (\<exists>p. pct_no_vehicle (derive r) = Fin p \<and> 0 \<le> p \<and> p \<le> 100))
   \<and> (unemployed r = Fin n3 \<and> in_labor_force r = Fin d3
      \<and> 0 \<le> n3 \<and> n3 \<le> d3 \<and> d3 \<noteq> 0 \<longrightarrow>
      (\<exists>p. unemployment_rate (derive r) = Fin p \<and> 0 \<le> p \<and> p \<le> 100))
   \<and> (analyze_commutes tracts df yr = Inr res
      \<and> 0 \<le> commute_in res \<and> commute_in res \<le> total_jobs res \<and> total_jobs res \<noteq> 0 \<longrightarrow>
      (\<exists>p. pct_commute_in res = Fin p \<and> 0 \<le> p \<and> p \<le> 100))"
proof (intro conjI impI)
  assume "college_grad_enrollment r = Fin n1 \<and> total_population r = Fin d1
      \<and> 0 \<le> n1 \<and> n1 \<le> d1 \<and> d1 \<noteq> 0"
  then show "\<exists>p. pct_students (derive r) = Fin p \<and> 0 \<le> p \<and> p \<le> 100"
    using ratio_in_range [of n1 d1] by (simp add: derive_sel)
next
  assume "fadd (no_vehicle_owner r) (no_vehicle_renter r) = Fin n2 \<and> total_households r = Fin d2
      \<and> 0 \<le> n2 \<and> n2 \<le> d2 \<and> d2 \<noteq> 0"
  then show "\<exists>p. pct_no_vehicle (derive r) = Fin p \<and> 0 \<le> p \<and> p \<le> 100"
    using ratio_in_range [of n2 d2] by (simp add: derive_sel)
next
  assume "unemployed r = Fin n3 \<and> in_labor_force r = Fin d3
      \<and> 0 \<le> n3 \<and> n3 \<le> d3 \<and> d3 \<noteq> 0"
  then show "\<exists>p. unemployment_rate (derive r) = Fin p \<and> 0 \<le> p \<and> p \<le> 100"
    using ratio_in_range [of n3 d3] by (simp add: derive_sel)
next
  assume a: "analyze_commutes tracts df yr = Inr res
      \<and> 0 \<le> commute_in res \<and> commute_in res \<le> total_jobs res \<and> total_jobs res \<noteq> 0"
  then have pos: "0 < total_jobs res" by simp
  from a have "0 \<le> (of_int (commute_in res) :: rat)"
      "(of_int (commute_in res) :: rat) \<le> of_int (total_jobs res)"
      "(of_int (total_jobs res) :: rat) \<noteq> 0"
    by simp_all
  then have "0 \<le> (of_int (commute_in res) :: rat) / of_int (total_jobs res) * 100
      \<and> (of_int (commute_in res) :: rat) / of_int (total_jobs res) * 100 \<le> 100"
    by (rule pct_in_range)
  moreover from a have "analyze_commutes tracts df yr = Inr res" by simp
  then have "pct_commute_in res =
      (if total_jobs res > 0
       then fmul (fdiv (Fin (of_int (commute_in res))) (Fin (of_int (total_jobs res))))
              (Fin 100)
       else Fin 0)"
    by (rule analyze_commutes_InrD(3))
  ultimately show "\<exists>p. pct_commute_in res = Fin p \<and> 0 \<le> p \<and> p \<le> 100"
    using pos by simp
qed

lemma acs_example_values:
  "pct_students (derive (acs_example_rows ! 1)) = Fin 10"
  "pct_no_vehicle (derive (acs_example_rows ! 1)) = Fin 20"
  "unemployment_rate (derive (acs_example_rows ! 1)) = Fin (333 / 100)"
  by code_simp+

theorem ratio_within_0_100_witness:
  "pct_students (derive (acs_example_rows ! 1)) = Fin 10
   \<and> pct_no_vehicle (derive (acs_example_rows ! 1)) = Fin 20
   \<and> unemployment_rate (derive (acs_example_rows ! 1)) = Fin (333 / 100)
   \<and> map_sum id pct_commute_in
        (analyze_commutes berkeley_tracts
          (map set_h_tract (berkeley_chunk berkeley_tracts sample_flows)) YEAR_PRE) =
       Inr (Fin (125 / 3))"
proof -
  have "analyze_commutes berkeley_tracts
          (map set_h_tract (berkeley_chunk berkeley_tracts sample_flows)) YEAR_PRE =
        Inr \<lparr>year = ''2019'', total_jobs = 12, same_tract = 0, live_work_berkeley = 7,
          commute_in = 5, pct_commute_in = Fin (125 / 3)\<rparr>"
    by (simp add: analyze_commutes_def berkeley_chunk_conv sample_flows_def set_h_tract_def
        set_w_tract_def berkeley_tracts_def isin_def YEAR_PRE_def sum_int64_def int64_def)
  with acs_example_values ratio_within_0_100
    [of "acs_example_rows ! 1" 5 50 10 50 1 30
        berkeley_tracts "map set_h_tract (berkeley_chunk berkeley_tracts sample_flows)"
        YEAR_PRE
        "\<lparr>year = ''2019'', total_jobs = 12, same_tract = 0, live_work_berkeley = 7,
          commute_in = 5, pct_commute_in = Fin (125 / 3)\<rparr>"]
  show ?thesis by simp
qed


text \<open>
  C2 (as stated, refuted). Three ratios with a zero denominator and three different
  results: a block group without households gets \<open>NaN\<close>, one whose no-vehicle count is
  positive gets \<open>+inf\<close>, and \<open>pct_commute_in\<close> of a frame without jobs is 0.
\<close>

theorem zero_denominator_no_single_sentinel:
  "total_households empty_block_group = Fin 0
   \<and> pct_no_vehicle (derive empty_block_group) = NaN
   \<and> total_households odd_block_group = Fin 0
   \<and> pct_no_vehicle (derive odd_block_group) = PInf
   \<and> map_sum id (\<lambda>res. (total_jobs res, pct_commute_in res))
        (analyze_commutes berkeley_tracts zero_jobs_frame YEAR_PRE) = Inr (0, Fin 0)
   \<and> pct_no_vehicle (derive empty_block_group) \<noteq> pct_no_vehicle (derive odd_block_group)
   \<and> pct_no_vehicle (derive empty_block_group) \<noteq> Fin 0"
  by (simp add: empty_block_group_def odd_block_group_def derive_sel zero_jobs_frame_def
      analyze_commutes_def sum_int64_def int64_def)

text \<open>
  C2 (amended). No ratio raises on a zero denominator, and each has a defined result,
  but not the same one. The three percentages of the block-group script are what the
  float division of pandas gives: \<open>NaN\<close> when the numerator is zero or \<open>NaN\<close>, an
  infinity with the sign of the numerator otherwise. \<open>pct_commute_in\<close> is 0, by the
  guard \<^verbatim>\<open>total > 0\<close>, whenever the 64-bit total of the counts is not positive.
\<close>

theorem zero_denominator_policy:
  "(total_population r = Fin 0 \<longrightarrow>
      pct_students (derive r) =
        (case college_grad_enrollment r of
           Fin n \<Rightarrow> if n = 0 then NaN else if 0 < n then PInf else NInf
         | PInf \<Rightarrow> PInf | NInf \<Rightarrow> NInf | NaN \<Rightarrow> NaN))
   \<and> (total_households r = Fin 0 \<longrightarrow>
      pct_no_vehicle (derive r) =
        (case fadd (no_vehicle_owner r) (no_vehicle_renter r) of
           Fin n \<Rightarrow> if n = 0 then NaN else if 0 < n then PInf else NInf
         | PInf \<Rightarrow> PInf | NInf \<Rightarrow> NInf | NaN \<Rightarrow> NaN))
   \<and> (in_labor_force r = Fin 0 \<longrightarrow>
      unemployment_rate (derive r) =
        (case unemployed r of
           Fin n \<Rightarrow> if n = 0 then NaN else if 0 < n then PInf else NInf
         | PInf \<Rightarrow> PInf | NInf \<Rightarrow> NInf | NaN \<Rightarrow> NaN))
   \<and> ((\<forall>x \<in> set df. h_tract x \<noteq> None \<and> w_tract x \<noteq> None)
        \<and> sum_int64 (map S000 df) \<le> 0 \<longrightarrow>
      (\<exists>res. analyze_commutes tracts df yr = Inr res
         \<and> total_jobs res = sum_int64 (map S000 df)
         \<and> pct_commute_in res = Fin 0))"
proof (intro conjI impI)
  assume "total_population r = Fin 0"
  then show "pct_students (derive r) =
        (case college_grad_enrollment r of
           Fin n \<Rightarrow> if n = 0 then NaN else if 0 < n then PInf else NInf
         | PInf \<Rightarrow> PInf | NInf \<Rightarrow> NInf | NaN \<Rightarrow> NaN)"
    by (simp only: derive_sel ratio_zero_denominator)
next
  assume "total_households r = Fin 0"
  then show "pct_no_vehicle (derive r) =
        (case fadd (no_vehicle_owner r) (no_vehicle_renter r) of
           Fin n \<Rightarrow> if n = 0 then NaN else if 0 < n then PInf else NInf
         | PInf \<Rightarrow> PInf | NInf \<Rightarrow> NInf | NaN \<Rightarrow> NaN)"
    by (simp only: derive_sel ratio_zero_denominator)
next
  assume "in_labor_force r = Fin 0"
  then show "unemployment_rate (derive r) =
        (case unemployed r of
           Fin n \<Rightarrow> if n = 0 then NaN else if 0 < n then PInf else NInf
         | PInf \<Rightarrow> PInf | NInf \<Rightarrow> NInf | NaN \<Rightarrow> NaN)"
    by (simp only: derive_sel ratio_zero_denominator)
next
  assume a: "(\<forall>x \<in> set df. h_tract x \<noteq> None \<and> w_tract x \<noteq> None)
        \<and> sum_int64 (map S000 df) \<le> 0"
  then have "\<forall>x \<in> set df. h_tract x \<noteq> None \<and> w_tract x \<noteq> None" by simp
  from analyze_commutes_present [OF this, of tracts yr] a
  show "\<exists>res. analyze_commutes tracts df yr = Inr res
         \<and> total_jobs res = sum_int64 (map S000 df)
         \<and> pct_commute_in res = Fin 0"
    by simp
qed

theorem zero_denominator_policy_witness:
  "total_population empty_block_group = Fin 0
   \<and> pct_students (derive empty_block_group) = NaN
   \<and> total_households odd_block_group = Fin 0
   \<and> pct_no_vehicle (derive odd_block_group) = PInf
   \<and> in_labor_force empty_block_group = Fin 0
   \<and> unemployment_rate (derive empty_block_group) = NaN
   \<and> sum_int64 (map S000 zero_jobs_frame) = 0
   \<and> map_sum id pct_commute_in
        (analyze_commutes berkeley_tracts zero_jobs_frame YEAR_PRE) = Inr (Fin 0)"
  using zero_denominator_policy [of empty_block_group zero_jobs_frame berkeley_tracts YEAR_PRE]
    zero_denominator_policy [of odd_block_group zero_jobs_frame berkeley_tracts YEAR_PRE]
  by (simp add: empty_block_group_def odd_block_group_def zero_jobs_frame_def
      analyze_commutes_def sum_int64_def int64_def)





end
